theory Spec2Isabelle
  imports Complex_Main
begin

section \<open>Embedding of server.js\<close>

subsection \<open>JavaScript numbers\<close>

text \<open>
  A JavaScript number is modelled as a real number or \<open>NaN\<close>. The rounding of IEEE
  doubles and the two infinities are left out; every comparison and every \<open>Math\<close>
  function keeps what JavaScript does with \<open>NaN\<close>.
\<close>

datatype jsnum = Num real | NaN

text \<open>The operator \<open><=\<close>: false as soon as one side is \<open>NaN\<close>.\<close>

fun js_le :: "jsnum \<Rightarrow> jsnum \<Rightarrow> bool" where
  "js_le (Num a) (Num b) = (a \<le> b)"
| "js_le _ _ = False"

fun js_add :: "jsnum \<Rightarrow> jsnum \<Rightarrow> jsnum" where
  "js_add (Num a) (Num b) = Num (a + b)"
| "js_add _ _ = NaN"

fun js_mul :: "jsnum \<Rightarrow> jsnum \<Rightarrow> jsnum" where
  "js_mul (Num a) (Num b) = Num (a * b)"
| "js_mul _ _ = NaN"

fun Math_max :: "jsnum \<Rightarrow> jsnum \<Rightarrow> jsnum" where
  "Math_max (Num a) (Num b) = Num (max a b)"
| "Math_max _ _ = NaN"

fun Math_min :: "jsnum \<Rightarrow> jsnum \<Rightarrow> jsnum" where
  "Math_min (Num a) (Num b) = Num (min a b)"
| "Math_min _ _ = NaN"

text \<open>\<open>Math.round\<close> rounds to the nearest integer, a tie going up.\<close>

fun Math_round :: "jsnum \<Rightarrow> jsnum" where
  "Math_round (Num a) = Num (of_int \<lfloor>a + 1 / 2\<rfloor>)"
| "Math_round NaN = NaN"

text \<open>Truthiness of a number, as \<open>||\<close> and \<open>if\<close> test it: \<open>0\<close> and \<open>NaN\<close> are falsy.\<close>

fun truthy_num :: "jsnum \<Rightarrow> bool" where
  "truthy_num (Num a) = (a \<noteq> 0)"
| "truthy_num NaN = False"

definition js_or_num :: "jsnum \<Rightarrow> jsnum \<Rightarrow> jsnum" where
  "js_or_num x d = (if truthy_num x then x else d)"

subsection \<open>The random source\<close>

text \<open>
  \<open>Math.random\<close> reads a process-wide generator. The generator is the stream of the
  numbers it is going to return; a call returns the first and leaves the rest.
\<close>

type_synonym rng = "nat \<Rightarrow> real"

definition Math_random :: "rng \<Rightarrow> real \<times> rng" where
  "Math_random g = (g 0, \<lambda>n. g (Suc n))"

text \<open>What JavaScript promises of the generator: every number lies in \<open>[0, 1)\<close>.\<close>

definition unit_draws :: "rng \<Rightarrow> bool" where
  "unit_draws g = (\<forall>n. 0 \<le> g n \<and> g n < 1)"

subsection \<open>Strings and plain objects\<close>

text \<open>
  A string is the list of the bytes of its UTF-8 form, as the source file stores its
  literals. The micro sign, the superscript three and the em dash of the literals are
  the byte sequences below.
\<close>

definition micro_sign :: string where
  "micro_sign = [CHR 0xC2, CHR 0xB5]"

definition superscript_three :: string where
  "superscript_three = [CHR 0xC2, CHR 0xB3]"

definition em_dash :: string where
  "em_dash = [CHR 0xE2, CHR 0x80, CHR 0x94]"

text \<open>
  An object written as a literal inherits from \<open>Object.prototype\<close>. Reading
  \<open>obj[key]\<close> gives the object's own value, or a member of the prototype when the key
  names one (a function, or for \<open>__proto__\<close> the prototype itself: always truthy, and
  with none of the fields this program reads), or \<open>undefined\<close>.
\<close>

datatype 'a property = Own 'a | Inherited | Missing

definition object_prototype_keys :: "string list" where
  "object_prototype_keys =
     [''constructor'', ''__defineGetter__'', ''__defineSetter__'', ''hasOwnProperty'',
      ''__lookupGetter__'', ''__lookupSetter__'', ''isPrototypeOf'',
      ''propertyIsEnumerable'', ''toString'', ''valueOf'', ''__proto__'',
      ''toLocaleString'']"

definition get_property :: "(string \<times> 'a) list \<Rightarrow> string \<Rightarrow> 'a property" where
  "get_property obj k =
     (case map_of obj k of
        Some v \<Rightarrow> Own v
      | None \<Rightarrow> if k \<in> set object_prototype_keys then Inherited else Missing)"

subsection \<open>Helpers\<close>

fun getAQICategory :: "jsnum \<Rightarrow> string" where
  "getAQICategory aqi =
     (if js_le aqi (Num 50) then ''good''
      else if js_le aqi (Num 100) then ''moderate''
      else if js_le aqi (Num 150) then ''unhealthy-sensitive''
      else if js_le aqi (Num 200) then ''unhealthy''
      else if js_le aqi (Num 300) then ''very-unhealthy''
      else ''hazardous'')"

record threshold =
  good :: real
  moderate :: real

definition thresholds :: "(string \<times> threshold) list" where
  "thresholds =
     [(''pm25'', \<lparr>good = 12, moderate = 35\<rparr>),
      (''pm10'', \<lparr>good = 54, moderate = 154\<rparr>),
      (''o3'', \<lparr>good = 54, moderate = 70\<rparr>),
      (''no2'', \<lparr>good = 53, moderate = 100\<rparr>),
      (''so2'', \<lparr>good = 35, moderate = 75\<rparr>),
      (''co'', \<lparr>good = 4.4, moderate = 9.4\<rparr>)]"

text \<open>
  \<open>thresholds[pollutant]?.good\<close> as a number for the comparison: the field of an own
  entry; \<open>undefined\<close>, which compares as \<open>NaN\<close>, when the key is missing or names a
  member of the prototype.
\<close>

fun threshold_field :: "(threshold \<Rightarrow> real) \<Rightarrow> threshold property \<Rightarrow> jsnum" where
  "threshold_field f (Own t) = Num (f t)"
| "threshold_field f Inherited = NaN"
| "threshold_field f Missing = NaN"

definition getStatusFromValue :: "string \<Rightarrow> jsnum \<Rightarrow> string" where
  "getStatusFromValue pollutant v =
     (if js_le v (threshold_field good (get_property thresholds pollutant)) then ''Good''
      else if js_le v (threshold_field moderate (get_property thresholds pollutant))
        then ''Moderate''
      else ''Unhealthy'')"

record rated =
  aqi :: jsnum
  category :: string

record forecast_day = rated +
  day :: string

definition days :: "string list" where
  "days = [''Today'', ''Tomorrow'', ''Wed'', ''Thu'', ''Fri'', ''Sat'']"

record factor =
  variation :: real
  trend :: real

definition forecast_factor :: factor where
  "forecast_factor = \<lparr>variation = 20, trend = 1.05\<rparr>"

text \<open>
  The body of the \<open>forEach\<close> callback of \<open>generateForecast\<close>, on the variables it
  updates: the running \<open>currentAqi\<close>, the \<open>forecast\<close> array and the generator.
\<close>

definition forecast_step ::
  "jsnum \<times> forecast_day list \<times> rng \<Rightarrow> string \<Rightarrow> jsnum \<times> forecast_day list \<times> rng" where
  "forecast_step st d =
     (case st of (currentAqi, forecast, g) \<Rightarrow>
        (case Math_random g of (r, g') \<Rightarrow>
           let v = (r - 0.5) * variation forecast_factor;
               currentAqi' =
                 Math_max (Num 10)
                   (Math_min (Num 400)
                      (js_add (js_mul currentAqi (Num (trend forecast_factor))) (Num v)))
           in (currentAqi',
               forecast @ [\<lparr>aqi = Math_round currentAqi',
                            category = getAQICategory currentAqi', day = d\<rparr>],
               g')))"

definition generateForecast :: "jsnum \<Rightarrow> string \<Rightarrow> rng \<Rightarrow> forecast_day list \<times> rng" where
  "generateForecast baseAqi location g =
     (case foldl forecast_step (baseAqi, [], g) days of
        (currentAqi, forecast, g') \<Rightarrow> (forecast, g'))"

definition generateHealthRecommendations :: "jsnum \<Rightarrow> string list" where
  "generateHealthRecommendations a =
     (if js_le a (Num 50) then [''Ideal air quality for outdoor activities'']
      else if js_le a (Num 100) then [''Air quality is acceptable for most people'']
      else if js_le a (Num 150) then [''Sensitive groups should reduce outdoor activities'']
      else if js_le a (Num 200) then [''Everyone may experience health effects'']
      else [''Health warnings '' @ em_dash @ '' avoid outdoor activities''])"

subsection \<open>Trimming and \<open>parseInt\<close>\<close>

text \<open>
  The white space of JavaScript (\<open>WhiteSpace\<close> and \<open>LineTerminator\<close>) in UTF-8: six
  ASCII characters, U+00A0 on two bytes, and on three bytes U+1680, U+2000 to U+200A,
  U+2028, U+2029, U+202F, U+205F, U+3000 and U+FEFF.
\<close>

definition ws1 :: "char \<Rightarrow> bool" where
  "ws1 a = (a \<in> set [CHR 0x09, CHR 0x0A, CHR 0x0B, CHR 0x0C, CHR 0x0D, CHR 0x20])"

definition ws2 :: "char \<Rightarrow> char \<Rightarrow> bool" where
  "ws2 a b = (a = CHR 0xC2 \<and> b = CHR 0xA0)"

definition ws3 :: "char \<Rightarrow> char \<Rightarrow> char \<Rightarrow> bool" where
  "ws3 a b c =
     ((a = CHR 0xE1 \<and> b = CHR 0x9A \<and> c = CHR 0x80) \<or>
      (a = CHR 0xE2 \<and> b = CHR 0x80 \<and>
         ((0x80 \<le> (of_char c :: nat) \<and> (of_char c :: nat) \<le> 0x8A) \<or>
          c = CHR 0xA8 \<or> c = CHR 0xA9 \<or> c = CHR 0xAF)) \<or>
      (a = CHR 0xE2 \<and> b = CHR 0x81 \<and> c = CHR 0x9F) \<or>
      (a = CHR 0xE3 \<and> b = CHR 0x80 \<and> c = CHR 0x80) \<or>
      (a = CHR 0xEF \<and> b = CHR 0xBB \<and> c = CHR 0xBF))"

fun trimStart :: "string \<Rightarrow> string" where
  "trimStart [] = []"
| "trimStart [a] = (if ws1 a then [] else [a])"
| "trimStart [a, b] =
     (if ws1 a then trimStart [b] else if ws2 a b then [] else [a, b])"
| "trimStart (a # b # c # s) =
     (if ws1 a then trimStart (b # c # s)
      else if ws2 a b then trimStart (c # s)
      else if ws3 a b c then trimStart s
      else a # b # c # s)"

text \<open>The same scan from the end, on the reversed string.\<close>

fun trimStart_rev :: "string \<Rightarrow> string" where
  "trimStart_rev [] = []"
| "trimStart_rev [a] = (if ws1 a then [] else [a])"
| "trimStart_rev [b, a] =
     (if ws1 b then trimStart_rev [a] else if ws2 a b then [] else [b, a])"
| "trimStart_rev (c # b # a # s) =
     (if ws1 c then trimStart_rev (b # a # s)
      else if ws2 b c then trimStart_rev (a # s)
      else if ws3 a b c then trimStart_rev s
      else c # b # a # s)"

definition trim :: "string \<Rightarrow> string" where
  "trim s = rev (trimStart_rev (rev (trimStart s)))"

text \<open>\<open>location.split(',')[0]\<close>: the part before the first comma, the whole without one.\<close>

definition split_comma_first :: "string \<Rightarrow> string" where
  "split_comma_first s = takeWhile (\<lambda>c. c \<noteq> CHR '','') s"

text \<open>
  \<open>parseInt\<close> with no radix: leading white space and one sign are skipped, a prefix
  \<open>0x\<close> or \<open>0X\<close> selects base 16, and the longest run of digits of the base is read.
  No digit gives \<open>NaN\<close>.
\<close>

definition digit_of :: "char \<Rightarrow> nat option" where
  "digit_of c =
     (let n = (of_char c :: nat) in
      if 48 \<le> n \<and> n \<le> 57 then Some (n - 48)
      else if 97 \<le> n \<and> n \<le> 122 then Some (n - 87)
      else if 65 \<le> n \<and> n \<le> 90 then Some (n - 55)
      else None)"

definition is_digit :: "nat \<Rightarrow> char \<Rightarrow> bool" where
  "is_digit radix c = (case digit_of c of None \<Rightarrow> False | Some d \<Rightarrow> d < radix)"

definition digits_value :: "nat \<Rightarrow> string \<Rightarrow> nat" where
  "digits_value radix ds =
     foldl (\<lambda>n c. n * radix + (case digit_of c of None \<Rightarrow> 0 | Some d \<Rightarrow> d)) 0 ds"

fun strip_sign :: "string \<Rightarrow> real \<times> string" where
  "strip_sign (c # s) =
     (if c = CHR ''-'' then (- 1, s) else if c = CHR ''+'' then (1, s) else (1, c # s))"
| "strip_sign [] = (1, [])"

fun strip_radix :: "string \<Rightarrow> nat \<times> string" where
  "strip_radix (z # x # s) =
     (if z = CHR ''0'' \<and> (x = CHR ''x'' \<or> x = CHR ''X'') then (16, s) else (10, z # x # s))"
| "strip_radix s = (10, s)"

definition parseInt :: "string \<Rightarrow> jsnum" where
  "parseInt s =
     (case strip_sign (trimStart s) of (sign, s1) \<Rightarrow>
        (case strip_radix s1 of (radix, s2) \<Rightarrow>
           let ds = takeWhile (is_digit radix) s2
           in if ds = [] then NaN else Num (sign * of_nat (digits_value radix ds))))"

subsection \<open>Mock data\<close>

text \<open>
  A value that the program reads from the provider's JSON and computes with. A JSON
  number is a real. A string, and an array or object (given by its JSON text), comes
  with the number that JavaScript converts it to: the program stores such a value, tests
  its truthiness and converts it to a number, and does nothing else with it.
\<close>

datatype js_value =
    Undefined \<comment> \<open>the field is absent\<close>
  | Null
  | Boolean bool
  | Number real
  | Str string jsnum
  | Compound string jsnum

fun truthy_value :: "js_value \<Rightarrow> bool" where
  "truthy_value Undefined = False"
| "truthy_value Null = False"
| "truthy_value (Boolean b) = b"
| "truthy_value (Number a) = (a \<noteq> 0)"
| "truthy_value (Str s n) = (s \<noteq> [])"
| "truthy_value (Compound t n) = True"

fun to_number :: "js_value \<Rightarrow> jsnum" where
  "to_number Undefined = NaN"
| "to_number Null = Num 0"
| "to_number (Boolean b) = Num (if b then 1 else 0)"
| "to_number (Number a) = Num a"
| "to_number (Str s n) = n"
| "to_number (Compound t n) = n"

text \<open>
  A value that the program only stores: absent, a string, or any other JSON value, given
  by its text.
\<close>

datatype js_stored = Absent | Text string | Json string

record quantity =
  val :: js_value
  unit :: js_stored

record pollutant = quantity +
  status :: string

type_synonym pollutant_map = "string \<rightharpoonup> pollutant"

text \<open>
  An entry of \<open>cityData\<close>. Its fields are \<open>aqi\<close>, \<open>category\<close> and \<open>pollutants\<close> in the
  source; the selectors carry a prefix here because a Reading has fields of the same
  names and other types.
\<close>

record city_entry =
  city_aqi :: real
  city_category :: string
  city_pollutants :: pollutant_map

definition ug_m3 :: string where
  "ug_m3 = micro_sign @ ''g/m'' @ superscript_three"

definition cityData :: "(string \<times> city_entry) list" where
  "cityData =
     [(''New York, NY'',
         \<lparr>city_aqi = 78, city_category = ''moderate'',
          city_pollutants = [''pm25'' \<mapsto> \<lparr>val = Number 12.3, unit = Text ug_m3, status = ''Good''\<rparr>]\<rparr>),
      (''Delhi, India'',
         \<lparr>city_aqi = 245, city_category = ''very-unhealthy'',
          city_pollutants =
            [''pm25'' \<mapsto> \<lparr>val = Number 45.6, unit = Text ug_m3, status = ''Very Unhealthy''\<rparr>]\<rparr>),
      (''London, UK'',
         \<lparr>city_aqi = 55, city_category = ''moderate'',
          city_pollutants = [''pm25'' \<mapsto> \<lparr>val = Number 11.2, unit = Text ug_m3, status = ''Good''\<rparr>]\<rparr>)]"

subsection \<open>The provider adapter\<close>

text \<open>
  What the awaited \<open>axios.get\<close> does: it rejects (no network, a status outside 2xx),
  or it resolves with a response whose \<open>data\<close> is the parsed body. The body is modelled
  by the shapes \<open>getOpenAQData\<close> tells apart.

  An element \<open>m\<close> of \<open>results\<close> is \<open>null\<close>, on which every read raises, or any other JSON
  value, given by what the adapter reads from it: \<open>m.value\<close>, \<open>m.unit\<close>, \<open>m.datetime\<close> and
  \<open>m.parameter\<close>. A field that the element lacks is \<open>undefined\<close>, as is every field of
  an element that is a number, a string, a boolean or an array. Of \<open>m.parameter\<close> the
  program uses only the property key that it converts to, in \<open>pollutants[m.parameter]\<close>
  and in \<open>thresholds[pollutant]\<close>; \<open>parameter\<close> is this key, \<open>undefined\<close> spelled out for an
  absent field.
\<close>

record measurement = quantity +
  parameter :: string
  datetime :: js_stored

datatype item = Null_item | Measurement measurement

datatype results_field =
    No_results \<comment> \<open>\<open>results\<close> is absent, \<open>null\<close> or another falsy value\<close>
  | Not_array_short \<comment> \<open>truthy, not an array, no \<open>length\<close> above 0\<close>
  | Not_array_long \<comment> \<open>not an array, \<open>length\<close> above 0 (a non-empty string): no \<open>forEach\<close>\<close>
  | Results "item list"

datatype response_data =
    No_data \<comment> \<open>\<open>response.data\<close> is \<open>undefined\<close> or \<open>null\<close>\<close>
  | Data results_field

datatype axios_outcome = Rejected | Resolved response_data

datatype js_error = AxiosError | TypeError

text \<open>
  \<open>pollutants[m.parameter] = ...\<close> on an object literal: the key \<open>__proto__\<close> replaces
  the prototype and adds no property; the new prototype holds \<open>value\<close>, \<open>unit\<close> and
  \<open>status\<close> only, so that later reads of \<open>pollutants.pm25\<close> see own properties alone.
\<close>

definition set_property :: "pollutant_map \<Rightarrow> string \<Rightarrow> pollutant \<Rightarrow> pollutant_map" where
  "set_property obj k v = (if k = ''__proto__'' then obj else obj(k \<mapsto> v))"

text \<open>The \<open>forEach\<close> over \<open>results\<close>; reading \<open>m.parameter\<close> of \<open>null\<close> raises.\<close>

fun collect_pollutants :: "pollutant_map \<Rightarrow> item list \<Rightarrow> js_error + pollutant_map" where
  "collect_pollutants pollutants [] = Inr pollutants"
| "collect_pollutants pollutants (Null_item # ms) = Inl TypeError"
| "collect_pollutants pollutants (Measurement m # ms) =
     collect_pollutants
       (set_property pollutants (parameter m)
          \<lparr>val = val m, unit = unit m,
           status = getStatusFromValue (parameter m) (to_number (val m))\<rparr>)
       ms"

text \<open>\<open>pollutants.pm25?.value || 15\<close>\<close>

definition pm25_or_default :: "pollutant_map \<Rightarrow> js_value" where
  "pm25_or_default pollutants =
     (case pollutants ''pm25'' of
        None \<Rightarrow> Number 15
      | Some p \<Rightarrow> if truthy_value (val p) then val p else Number 15)"

definition calculatedAqi :: "pollutant_map \<Rightarrow> jsnum" where
  "calculatedAqi pollutants =
     Math_min (Num 500)
       (Math_max (Num 0) (js_mul (to_number (pm25_or_default pollutants)) (Num 5)))"

record summary = rated +
  location :: string
  pollutants :: "pollutant_map option"
  lastUpdated :: js_stored

text \<open>The \<open>try\<close> block: \<open>Inl\<close> is an exception, \<open>Inr None\<close> is falling out of the \<open>if\<close>.\<close>

definition getOpenAQData_try :: "string \<Rightarrow> axios_outcome \<Rightarrow> js_error + summary option" where
  "getOpenAQData_try loc outcome =
     (let cityName = trim (split_comma_first loc) in
      case outcome of
        Rejected \<Rightarrow> Inl AxiosError
      | Resolved No_data \<Rightarrow> Inl TypeError
      | Resolved (Data No_results) \<Rightarrow> Inr None
      | Resolved (Data Not_array_short) \<Rightarrow> Inr None
      | Resolved (Data Not_array_long) \<Rightarrow> Inl TypeError
      | Resolved (Data (Results [])) \<Rightarrow> Inr None
      | Resolved (Data (Results (latestData # rest))) \<Rightarrow>
          (case collect_pollutants Map.empty (latestData # rest) of
             Inl e \<Rightarrow> Inl e
           | Inr ps \<Rightarrow>
               (case latestData of
                  Null_item \<Rightarrow> Inl TypeError
                | Measurement m \<Rightarrow>
                    Inr (Some \<lparr>aqi = Math_round (calculatedAqi ps),
                               category = getAQICategory (calculatedAqi ps),
                               location = cityName,
                               pollutants = Some ps,
                               lastUpdated = datetime m\<rparr>))))"

text \<open>The \<open>catch\<close> logs the error and falls through to \<open>return null\<close>.\<close>

definition getOpenAQData :: "string \<Rightarrow> axios_outcome \<Rightarrow> summary option" where
  "getOpenAQData loc outcome =
     (case getOpenAQData_try loc outcome of Inl e \<Rightarrow> None | Inr r \<Rightarrow> r)"

subsection \<open>The resolver\<close>

record reading = summary +
  forecast :: "forecast_day list"
  healthRecommendations :: "string list"

text \<open>\<open>a || b\<close> on what a property read returns: only \<open>undefined\<close> is falsy here.\<close>

fun js_or_property :: "'a property \<Rightarrow> 'a property \<Rightarrow> 'a property" where
  "js_or_property Missing b = b"
| "js_or_property a b = a"

text \<open>
  \<open>fallback.aqi\<close> and \<open>fallback.pollutants\<close>: a read from \<open>undefined\<close> raises; a member of
  the prototype has neither field, so the read gives \<open>undefined\<close>, which the addition
  turns into \<open>NaN\<close>.
\<close>

fun fallback_aqi :: "city_entry property \<Rightarrow> js_error + jsnum" where
  "fallback_aqi (Own e) = Inr (Num (city_aqi e))"
| "fallback_aqi Inherited = Inr NaN"
| "fallback_aqi Missing = Inl TypeError"

fun fallback_pollutants :: "city_entry property \<Rightarrow> js_error + pollutant_map option" where
  "fallback_pollutants (Own e) = Inr (Some (city_pollutants e))"
| "fallback_pollutants Inherited = Inr None"
| "fallback_pollutants Missing = Inl TypeError"

text \<open>
  \<open>getAirQualityData\<close>, given what the provider call does, what
  \<open>new Date().toISOString()\<close> returns and the generator; it returns the Reading and the
  generator it leaves, or the exception it raises.
\<close>

definition getAirQualityData ::
  "string \<Rightarrow> axios_outcome \<Rightarrow> string \<Rightarrow> rng \<Rightarrow> js_error + reading \<times> rng" where
  "getAirQualityData loc outcome now g =
     (case getOpenAQData loc outcome of
        Some openAQData \<Rightarrow>
          (case generateForecast (aqi openAQData) loc g of (fc, g') \<Rightarrow>
             Inr (\<lparr>aqi = aqi openAQData, category = category openAQData,
                   location = location openAQData, pollutants = pollutants openAQData,
                   lastUpdated = lastUpdated openAQData,
                   forecast = fc,
                   healthRecommendations = generateHealthRecommendations (aqi openAQData)\<rparr>,
                  g'))
      | None \<Rightarrow>
          (let fallback =
                 js_or_property (get_property cityData loc)
                   (get_property cityData ''New York, NY'')
           in case Math_random g of (r, g1) \<Rightarrow>
             (case fallback_aqi fallback of
                Inl e \<Rightarrow> Inl e
              | Inr base \<Rightarrow>
                  let currentAqi = Math_max (Num 0) (js_add base (Num ((r - 0.5) * 10)))
                  in (case fallback_pollutants fallback of
                        Inl e \<Rightarrow> Inl e
                      | Inr ps \<Rightarrow>
                          (case generateForecast currentAqi loc g1 of (fc, g2) \<Rightarrow>
                             Inr (\<lparr>aqi = Math_round currentAqi,
                                   category = getAQICategory currentAqi,
                                   location = loc,
                                   pollutants = ps,
                                   lastUpdated = Text now,
                                   forecast = fc,
                                   healthRecommendations =
                                     generateHealthRecommendations currentAqi\<rparr>,
                                  g2))))))"

subsection \<open>The route \<open>/api/health\<close>\<close>

record health_response =
  recommendations :: "string list"

text \<open>
  \<open>req.query.aqi\<close> is a string, or \<open>undefined\<close> when the parameter is missing;
  \<open>parseInt\<close> first turns its argument into a string.
\<close>

definition query_to_string :: "string option \<Rightarrow> string" where
  "query_to_string q = (case q of None \<Rightarrow> ''undefined'' | Some s \<Rightarrow> s)"

definition api_health :: "string option \<Rightarrow> health_response" where
  "api_health q =
     (let a = js_or_num (parseInt (query_to_string q)) (Num 50)
      in \<lparr>recommendations = generateHealthRecommendations a\<rparr>)"

subsection \<open>Definitions that state the properties\<close>

text \<open>The six bands in the order of their severity, and the rank of a band in it.\<close>

definition bands :: "string list" where
  "bands =
     [''good'', ''moderate'', ''unhealthy-sensitive'', ''unhealthy'', ''very-unhealthy'',
      ''hazardous'']"

definition severity :: "string \<Rightarrow> nat option" where
  "severity c =
     (if c = ''good'' then Some 0
      else if c = ''moderate'' then Some 1
      else if c = ''unhealthy-sensitive'' then Some 2
      else if c = ''unhealthy'' then Some 3
      else if c = ''very-unhealthy'' then Some 4
      else if c = ''hazardous'' then Some 5
      else None)"

text \<open>
  The forecast as the specification words it: \<open>clamp(x, lo, hi)\<close>, a noise drawn in
  \<open>[-10, +10]\<close> from a number of the generator, and the running value updated by
  \<open>next = clamp(current * 1.05 + noise, 10, 400)\<close>, one value a day.
\<close>

definition clamp :: "real \<Rightarrow> real \<Rightarrow> real \<Rightarrow> real" where
  "clamp x lo hi = max lo (min hi x)"

definition noise :: "real \<Rightarrow> real" where
  "noise r = (r - 1 / 2) * 20"

fun running :: "real \<Rightarrow> real list \<Rightarrow> real list" where
  "running current [] = []"
| "running current (r # rs) =
     (let nxt = clamp (current * 1.05 + noise r) 10 400 in nxt # running nxt rs)"

definition spec_day :: "string \<Rightarrow> real \<Rightarrow> forecast_day" where
  "spec_day d x =
     \<lparr>aqi = Num (of_int \<lfloor>x + 1 / 2\<rfloor>), category = getAQICategory (Num x), day = d\<rparr>"







text \<open>A generator that returns the same number for ever, and the Reading of a result.\<close>

definition constant_draws :: "real \<Rightarrow> rng" where
  "constant_draws r = (\<lambda>n. r)"

definition reading_of :: "js_error + reading \<times> rng \<Rightarrow> reading option" where
  "reading_of res = (case res of Inl e \<Rightarrow> None | Inr p \<Rightarrow> Some (fst p))"

section \<open>Properties\<close>

subsection \<open>The category classifier\<close>

text \<open>
  C5. For every number \<open>x\<close>, \<open>getAQICategory\<close> returns \<open>good\<close> when \<open>x \<le> 50\<close>, \<open>moderate\<close>
  when \<open>50 < x \<le> 100\<close>, \<open>unhealthy-sensitive\<close> when \<open>100 < x \<le> 150\<close>, \<open>unhealthy\<close> when
  \<open>150 < x \<le> 200\<close>, \<open>very-unhealthy\<close> when \<open>200 < x \<le> 300\<close> and \<open>hazardous\<close> otherwise,
  which includes \<open>NaN\<close>. The function is a total function of its argument alone.
\<close>

theorem getAQICategory_bands:
  "(x \<le> 50 \<longrightarrow> getAQICategory (Num x) = ''good'') \<and>
   (50 < x \<and> x \<le> 100 \<longrightarrow> getAQICategory (Num x) = ''moderate'') \<and>
   (100 < x \<and> x \<le> 150 \<longrightarrow> getAQICategory (Num x) = ''unhealthy-sensitive'') \<and>
   (150 < x \<and> x \<le> 200 \<longrightarrow> getAQICategory (Num x) = ''unhealthy'') \<and>
   (200 < x \<and> x \<le> 300 \<longrightarrow> getAQICategory (Num x) = ''very-unhealthy'') \<and>
   (300 < x \<longrightarrow> getAQICategory (Num x) = ''hazardous'') \<and>
   getAQICategory NaN = ''hazardous''"
  by simp

theorem getAQICategory_bands_witness:
  "getAQICategory (Num 50) = ''good'' \<and> getAQICategory (Num 50.5) = ''moderate'' \<and>
   getAQICategory (Num 150) = ''unhealthy-sensitive'' \<and>
   getAQICategory (Num 200) = ''unhealthy'' \<and>
   getAQICategory (Num 300) = ''very-unhealthy'' \<and>
   getAQICategory (Num 301) = ''hazardous''"
  using getAQICategory_bands [of 50] getAQICategory_bands [of "50.5"]
    getAQICategory_bands [of 150] getAQICategory_bands [of 200]
    getAQICategory_bands [of 300] getAQICategory_bands [of 301]
  by simp

text \<open>The rank of the band of a number.\<close>

lemma severity_category:
  "severity (getAQICategory (Num x)) =
     Some (if x \<le> 50 then 0 else if x \<le> 100 then 1 else if x \<le> 150 then 2
           else if x \<le> 200 then 3 else if x \<le> 300 then 4 else 5)"
  by (simp add: severity_def)

text \<open>
  C6. For all \<open>i \<le> j\<close> in \<open>[0, 500]\<close> the band of \<open>i\<close> is at most as severe as the band of
  \<open>j\<close> in the order good, moderate, unhealthy-sensitive, unhealthy, very-unhealthy,
  hazardous, and both bands are among these six.
\<close>

theorem severity_monotone:
  assumes "0 \<le> i" and "i \<le> j" and "j \<le> 500"
  shows "\<exists>a b. severity (getAQICategory (Num i)) = Some a \<and>
               severity (getAQICategory (Num j)) = Some b \<and> a \<le> b \<and>
               getAQICategory (Num i) \<in> set bands \<and> getAQICategory (Num j) \<in> set bands"
proof -
  have "getAQICategory (Num i) \<in> set bands" and "getAQICategory (Num j) \<in> set bands"
    by (simp_all add: bands_def)
  moreover have "(if i \<le> 50 then 0 else if i \<le> 100 then 1 else if i \<le> 150 then 2
           else if i \<le> 200 then 3 else if i \<le> 300 then 4 else (5::nat))
     \<le> (if j \<le> 50 then 0 else if j \<le> 100 then 1 else if j \<le> 150 then 2
           else if j \<le> 200 then 3 else if j \<le> 300 then 4 else 5)"
    using assms(2) by auto
  ultimately show ?thesis
    unfolding severity_category by blast
qed

theorem severity_monotone_witness:
  "(0::real) \<le> 50 \<and> (50::real) \<le> 50.5 \<and> (50.5::real) \<le> 500 \<and>
   severity (getAQICategory (Num 50)) = Some 0 \<and>
   severity (getAQICategory (Num 50.5)) = Some 1"
  using severity_monotone [of 50 "50.5"] by (simp add: severity_def)

text \<open>From here on the classifier is unfolded only where a proof asks for it.\<close>

declare getAQICategory.simps [simp del]

subsection \<open>The pollutant status classifier\<close>

text \<open>
  C10. For every pollutant name other than pm25, pm10, o3, no2, so2 and co, and every
  value, \<open>getStatusFromValue\<close> returns \<open>Unhealthy\<close>: both thresholds are \<open>undefined\<close>, both
  comparisons are false and the last branch is taken.
\<close>

theorem unknown_pollutant_unhealthy:
  assumes "pollutant \<notin> set [''pm25'', ''pm10'', ''o3'', ''no2'', ''so2'', ''co'']"
  shows "getStatusFromValue pollutant v = ''Unhealthy''"
proof -
  have "map_of thresholds pollutant = None"
    using assms by (simp add: thresholds_def)
  then have "threshold_field f (get_property thresholds pollutant) = NaN" for f
    by (simp add: get_property_def)
  moreover have "\<not> js_le v NaN"
    by (cases v) simp_all
  ultimately show ?thesis
    by (simp add: getStatusFromValue_def)
qed

theorem unknown_pollutant_unhealthy_witness:
  "''constructor'' \<notin> set [''pm25'', ''pm10'', ''o3'', ''no2'', ''so2'', ''co''] \<and>
   getStatusFromValue ''constructor'' (Num 3) = ''Unhealthy'' \<and>
   getStatusFromValue ''bc'' NaN = ''Unhealthy''"
  using unknown_pollutant_unhealthy [of "''constructor''" "Num 3"]
    unknown_pollutant_unhealthy [of "''bc''" NaN]
  by simp

subsection \<open>The forecast generator\<close>

text \<open>
  C9. \<open>generateForecast\<close> does not depend on its location: with the same seed and the
  same generator, two locations give the same forecast and leave the same generator.
\<close>

theorem forecast_ignores_location:
  "generateForecast baseAqi location1 g = generateForecast baseAqi location2 g"
  by (simp add: generateForecast_def)

text \<open>The running value of the specification stays in \<open>[10, 400]\<close>, one value a draw.\<close>

lemma running_bounds: "x \<in> set (running c rs) \<Longrightarrow> 10 \<le> x \<and> x \<le> 400"
  by (induction rs arbitrary: c) (auto simp: clamp_def Let_def)

lemma length_running: "length (running c rs) = length rs"
  by (induction rs arbitrary: c) (simp_all add: Let_def)

lemma running_first: "clamp (c * 1.05 + noise r) 10 400 \<in> set (running c (r # rs))"
  by (simp add: running.simps Let_def)

text \<open>\<open>Math.round\<close> is at most one half away from its argument.\<close>

lemma round_nearest: "\<bar>of_int \<lfloor>x + 1 / 2\<rfloor> - x\<bar> \<le> (1 / 2 :: real)"
  by linarith

text \<open>
  One turn of the loop on a seed that is a number, then the whole loop: the code
  computes the running values of the specification and appends one entry for each.
\<close>

lemma forecast_step_Num:
  "forecast_step (Num c, fc, g) d =
     (Num (clamp (c * 1.05 + noise (g 0)) 10 400),
      fc @ [spec_day d (clamp (c * 1.05 + noise (g 0)) 10 400)],
      \<lambda>n. g (Suc n))"
  by (simp add: forecast_step_def Math_random_def forecast_factor_def spec_day_def clamp_def
      noise_def Let_def)

lemma foldl_forecast_step:
  "foldl forecast_step (Num c, fc, g) ds =
     (Num (last (c # running c (map g [0..<length ds]))),
      fc @ map2 spec_day ds (running c (map g [0..<length ds])),
      \<lambda>n. g (n + length ds))"
proof (induction ds arbitrary: c fc g)
  case Nil
  then show ?case by simp
next
  case (Cons d ds)
  have shift: "map g [0..<Suc (length ds)] = g 0 # map (\<lambda>n. g (Suc n)) [0..<length ds]"
    by (simp add: upt_conv_Cons map_Suc_upt [symmetric] del: upt_Suc)
  show ?case
    by (simp add: forecast_step_Num Cons.IH shift Let_def del: upt_Suc)
qed

declare running.simps [simp del]

lemma generateForecast_Num:
  "generateForecast (Num seed) loc g =
     (map2 spec_day days (running seed [g 0, g 1, g 2, g 3, g 4, g 5]), \<lambda>n. g (n + 6))"
proof -
  have l: "length days = 6"
    by (simp add: days_def)
  have m: "map g [0..<6] = [g 0, g 1, g 2, g 3, g 4, g 5]"
    by (simp add: upt_rec eval_nat_numeral)
  show ?thesis
    unfolding generateForecast_def foldl_forecast_step l m
    by simp
qed

text \<open>
  For every seed, \<open>NaN\<close> included: the loop appends one entry a day, labelled with the
  day, whose \<open>aqi\<close> and \<open>category\<close> are \<open>Math.round\<close> and \<open>getAQICategory\<close> of the same
  running value, and it takes one number a day from the generator.
\<close>

lemma foldl_forecast_step_shape:
  "\<exists>c' new. foldl forecast_step (c, fc, g) ds = (c', fc @ new, \<lambda>n. g (n + length ds)) \<and>
     map day new = ds \<and>
     (\<forall>d \<in> set new. \<exists>x. aqi d = Math_round x \<and> category d = getAQICategory x)"
proof (induction ds arbitrary: c fc g)
  case Nil
  then show ?case by simp
next
  case (Cons d ds)
  define c1 where
    "c1 = Math_max (Num 10)
       (Math_min (Num 400)
          (js_add (js_mul c (Num (trend forecast_factor)))
             (Num ((g 0 - 0.5) * variation forecast_factor))))"
  define e where "e = \<lparr>aqi = Math_round c1, category = getAQICategory c1, day = d\<rparr>"
  have step: "forecast_step (c, fc, g) d = (c1, fc @ [e], \<lambda>n. g (Suc n))"
    by (simp add: forecast_step_def Math_random_def Let_def c1_def e_def)
  have e: "aqi e = Math_round c1" "category e = getAQICategory c1" "day e = d"
    by (simp_all add: e_def)
  from Cons.IH [of c1 "fc @ [e]" "\<lambda>n. g (Suc n)"]
  obtain c' new where
    IH: "foldl forecast_step (c1, fc @ [e], \<lambda>n. g (Suc n)) ds =
           (c', (fc @ [e]) @ new, \<lambda>n. g (Suc (n + length ds)))"
      "map day new = ds"
      "\<forall>d \<in> set new. \<exists>x. aqi d = Math_round x \<and> category d = getAQICategory x"
    by auto
  have loop: "foldl forecast_step (c, fc, g) (d # ds) =
      (c', fc @ (e # new), \<lambda>n. g (n + length (d # ds)))"
    by (simp add: step IH(1))
  have labels: "map day (e # new) = d # ds"
    by (simp add: e(3) IH(2))
  have entries:
    "\<forall>d \<in> set (e # new). \<exists>x. aqi d = Math_round x \<and> category d = getAQICategory x"
    using e IH(3) by auto
  show ?case
    by (intro exI [of _ c'] exI [of _ "e # new"] conjI loop labels entries)
qed

lemma generateForecast_shape:
  "\<exists>fc. generateForecast b loc g = (fc, \<lambda>n. g (n + 6)) \<and> length fc = 6 \<and>
     map day fc = [''Today'', ''Tomorrow'', ''Wed'', ''Thu'', ''Fri'', ''Sat''] \<and>
     (\<forall>d \<in> set fc. \<exists>x. aqi d = Math_round x \<and> category d = getAQICategory x)"
proof -
  have six: "length days = 6"
    by (simp add: days_def)
  from foldl_forecast_step_shape [of b "[]" g days]
  obtain c' new where
    loop: "foldl forecast_step (b, [], g) days = (c', [] @ new, \<lambda>n. g (n + length days))"
    and labels: "map day new = days"
    and entries: "\<forall>d \<in> set new. \<exists>x. aqi d = Math_round x \<and> category d = getAQICategory x"
    by blast
  have result: "generateForecast b loc g = (new, \<lambda>n. g (n + 6))"
    unfolding generateForecast_def loop six by simp
  have length: "length new = 6"
    using labels six by (metis length_map)
  have today: "map day new = [''Today'', ''Tomorrow'', ''Wed'', ''Thu'', ''Fri'', ''Sat'']"
    using labels by (simp only: days_def)
  show ?thesis
    by (intro exI [of _ new] conjI result length today entries)
qed

text \<open>
  C4. For every seed and every generator, \<open>generateForecast\<close> returns exactly 6 entries
  labelled Today, Tomorrow, Wed, Thu, Fri, Sat in this order. For every seed that is a
  number it takes 6 numbers from the generator and builds the entries from the running
  values of
  \<open>next = clamp(current * 1.05 + noise, 10, 400)\<close>, which all lie in \<open>[10, 400]\<close>; the \<open>aqi\<close>
  of an entry is \<open>Math.round\<close> of its running value, an integer at most one half away
  from it. With a generator that draws in \<open>[0, 1)\<close> each noise lies in \<open>[-10, 10)\<close>. (That
  the noise is uniform is a property of the generator, outside of this model.)
\<close>

theorem forecast_six_days:
  "fst (generateForecast (Num seed) loc g) =
     map2 spec_day days (running seed [g 0, g 1, g 2, g 3, g 4, g 5]) \<and>
   snd (generateForecast (Num seed) loc g) = (\<lambda>n. g (n + 6)) \<and>
   length (fst (generateForecast b loc g)) = 6 \<and>
   map day (fst (generateForecast b loc g)) =
     [''Today'', ''Tomorrow'', ''Wed'', ''Thu'', ''Fri'', ''Sat''] \<and>
   (\<forall>x \<in> set (running seed [g 0, g 1, g 2, g 3, g 4, g 5]). 10 \<le> x \<and> x \<le> 400) \<and>
   (\<forall>d x. aqi (spec_day d x) = Math_round (Num x) \<and>
      (\<exists>k. aqi (spec_day d x) = Num (of_int k) \<and> \<bar>of_int k - x\<bar> \<le> 1 / 2)) \<and>
   (unit_draws g \<longrightarrow> (\<forall>n. - 10 \<le> noise (g n) \<and> noise (g n) < 10))"
proof -
  let ?xs = "running seed [g 0, g 1, g 2, g 3, g 4, g 5]"
  let ?fc = "fst (generateForecast (Num seed) loc g)"
  have entries: "?fc = map2 spec_day days ?xs"
    by (simp add: generateForecast_Num)
  have rest: "snd (generateForecast (Num seed) loc g) = (\<lambda>n. g (n + 6))"
    by (simp add: generateForecast_Num)
  have six: "length (fst (generateForecast b loc g)) = 6"
    using generateForecast_shape [of b loc g] by auto
  have labels: "map day (fst (generateForecast b loc g)) =
      [''Today'', ''Tomorrow'', ''Wed'', ''Thu'', ''Fri'', ''Sat'']"
    using generateForecast_shape [of b loc g] by auto
  have kept: "\<forall>x \<in> set ?xs. 10 \<le> x \<and> x \<le> 400"
    using running_bounds by blast
  have rounded: "\<forall>d x. aqi (spec_day d x) = Math_round (Num x) \<and>
      (\<exists>k. aqi (spec_day d x) = Num (of_int k) \<and> \<bar>of_int k - x\<bar> \<le> 1 / 2)"
    using round_nearest by (auto simp: spec_day_def)
  have drawn: "unit_draws g \<longrightarrow> (\<forall>n. - 10 \<le> noise (g n) \<and> noise (g n) < 10)"
  proof
    assume u: "unit_draws g"
    show "\<forall>n. - 10 \<le> noise (g n) \<and> noise (g n) < 10"
    proof
      fix n
      from u have "0 \<le> g n" and "g n < 1"
        by (simp_all add: unit_draws_def)
      then show "- 10 \<le> noise (g n) \<and> noise (g n) < 10"
        by (simp add: noise_def)
    qed
  qed
  show ?thesis
    by (intro conjI entries rest six labels kept rounded drawn)
qed

theorem forecast_six_days_witness:
  "unit_draws (constant_draws (1 / 2)) \<and>
   (\<forall>n. - 10 \<le> noise (constant_draws (1 / 2) n) \<and> noise (constant_draws (1 / 2) n) < 10) \<and>
   (252 / 5 :: real) \<in> set (running 48 [1 / 2, 1 / 2, 1 / 2, 1 / 2, 1 / 2, 1 / 2]) \<and>
   (10 :: real) \<le> 252 / 5 \<and> (252 / 5 :: real) \<le> 400 \<and>
   length (fst (generateForecast (Num 48) ''London, UK'' (constant_draws (1 / 2)))) = 6"
proof -
  note inst = forecast_six_days [of 48 "''London, UK''" "constant_draws (1 / 2)" "Num 48"]
  have draws: "unit_draws (constant_draws (1 / 2))"
    by (simp add: unit_draws_def constant_draws_def)
  with inst have noises:
    "\<forall>n. - 10 \<le> noise (constant_draws (1 / 2) n) \<and> noise (constant_draws (1 / 2) n) < 10"
    by blast
  have first: "(252 / 5 :: real) \<in> set (running 48 [1 / 2, 1 / 2, 1 / 2, 1 / 2, 1 / 2, 1 / 2])"
    using running_first [of 48 "1 / 2" "[1 / 2, 1 / 2, 1 / 2, 1 / 2, 1 / 2]"]
    by (simp add: noise_def clamp_def)
  with inst [unfolded constant_draws_def]
  have bounds: "(10 :: real) \<le> 252 / 5 \<and> (252 / 5 :: real) \<le> 400"
    by blast
  from inst have six:
    "length (fst (generateForecast (Num 48) ''London, UK'' (constant_draws (1 / 2)))) = 6"
    by blast
  from draws noises first bounds six show ?thesis
    by blast
qed

subsection \<open>The route \<open>/api/health\<close>\<close>

text \<open>\<open>parseInt\<close> on the query strings used below, and on a signed hexadecimal one.\<close>

lemma parseInt_250: "parseInt ''250'' = Num 250"
  by (simp add: parseInt_def is_digit_def digit_of_def digits_value_def ws1_def ws2_def ws3_def)
lemma parseInt_50: "parseInt ''50'' = Num 50"
  by (simp add: parseInt_def is_digit_def digit_of_def digits_value_def ws1_def ws2_def ws3_def)
lemma parseInt_undefined: "parseInt ''undefined'' = NaN"
  by (simp add: parseInt_def is_digit_def digit_of_def digits_value_def ws1_def ws2_def ws3_def)
lemma parseInt_hex: "parseInt '' -0x1F'' = Num (- 31)"
  by (simp add: parseInt_def is_digit_def digit_of_def digits_value_def ws1_def ws2_def ws3_def)

text \<open>
  C8. \<open>GET /api/health?aqi=250\<close> returns the list of one string that
  \<open>generateHealthRecommendations\<close> gives above 200, and the route without the parameter
  returns the same response as with \<open>aqi=50\<close>.
\<close>

theorem api_health_default:
  "api_health (Some ''250'') =
     \<lparr>recommendations = [''Health warnings '' @ em_dash @ '' avoid outdoor activities'']\<rparr> \<and>
   api_health (Some ''250'') =
     \<lparr>recommendations = generateHealthRecommendations (Num 250)\<rparr> \<and>
   length (recommendations (api_health (Some ''250''))) = 1 \<and>
   api_health None = api_health (Some ''50'')"
  by (simp add: api_health_def query_to_string_def js_or_num_def parseInt_250 parseInt_50
      parseInt_undefined generateHealthRecommendations_def)

subsection \<open>The provider adapter\<close>

text \<open>The adapter returns \<open>null\<close> exactly on the outcomes that count as a failure.\<close>

lemma getOpenAQData_failures:
  "getOpenAQData loc Rejected = None"
  "getOpenAQData loc (Resolved No_data) = None"
  "getOpenAQData loc (Resolved (Data No_results)) = None"
  "getOpenAQData loc (Resolved (Data Not_array_short)) = None"
  "getOpenAQData loc (Resolved (Data Not_array_long)) = None"
  "getOpenAQData loc (Resolved (Data (Results []))) = None"
  by (simp_all add: getOpenAQData_def getOpenAQData_try_def)



lemma fallback_defined:
  "js_or_property (get_property cityData loc) (get_property cityData ''New York, NY'') \<noteq> Missing"
  by (cases "get_property cityData loc") (simp_all add: get_property_def cityData_def)



text \<open>
  What it returns otherwise: the index is \<open>Math.round\<close> of \<open>calculatedAqi\<close> and the
  category is the band of \<open>calculatedAqi\<close> itself.
\<close>

lemma getOpenAQData_Some:
  assumes "getOpenAQData loc outcome = Some s"
  shows "\<exists>ps. aqi s = Math_round (calculatedAqi ps) \<and>
              category s = getAQICategory (calculatedAqi ps) \<and>
              pollutants s = Some ps"
  using assms
  by (auto simp: getOpenAQData_def getOpenAQData_try_def
      split: axios_outcome.splits response_data.splits results_field.splits list.splits
        sum.splits item.splits)

lemma calculatedAqi_cases:
  "calculatedAqi ps =
     (case ps ''pm25'' of
        None \<Rightarrow> Num 75
      | Some p \<Rightarrow>
          (case val p of
             Number v \<Rightarrow> if v = 0 then Num 75 else Num (clamp (v * 5) 0 500)
           | other \<Rightarrow>
               if truthy_value other
               then Math_min (Num 500) (Math_max (Num 0) (js_mul (to_number other) (Num 5)))
               else Num 75))"
  by (auto simp: calculatedAqi_def pm25_or_default_def clamp_def min_def max_def
      split: option.splits js_value.splits)

lemma collect_pollutants_without_pm25:
  assumes "collect_pollutants ps ms = Inr ps'"
    and "\<forall>m. Measurement m \<in> set ms \<longrightarrow> parameter m \<noteq> ''pm25''"
  shows "ps' ''pm25'' = ps ''pm25''"
  using assms
  by (induction ps ms rule: collect_pollutants.induct) (auto simp: set_property_def)

lemma collect_pollutants_with_pm25:
  assumes "collect_pollutants ps ms = Inr ps'"
    and "Measurement m \<in> set ms" and "parameter m = ''pm25''"
  shows "\<exists>m'. Measurement m' \<in> set ms \<and> parameter m' = ''pm25'' \<and>
           map_option val (ps' ''pm25'') = Some (val m')"
  using assms
proof (induction ps ms arbitrary: m rule: collect_pollutants.induct)
  case (3 ps m0 ms)
  let ?ps0 = "set_property ps (parameter m0)
     \<lparr>val = val m0, unit = unit m0,
      status = getStatusFromValue (parameter m0) (to_number (val m0))\<rparr>"
  from "3.prems"(1) have rest: "collect_pollutants ?ps0 ms = Inr ps'"
    by simp
  show ?case
  proof (cases "\<exists>m1. Measurement m1 \<in> set ms \<and> parameter m1 = ''pm25''")
    case True
    then obtain m1 where "Measurement m1 \<in> set ms" "parameter m1 = ''pm25''"
      by blast
    from "3.IH" [OF rest this] show ?thesis
      by auto
  next
    case False
    with "3.prems" have here: "m0 = m" "parameter m0 = ''pm25''"
      by auto
    from False have "ps' ''pm25'' = ?ps0 ''pm25''"
      using collect_pollutants_without_pm25 [OF rest] by blast
    with here show ?thesis
      by (auto simp: set_property_def)
  qed
qed simp_all

lemma adapter_index:
  assumes "getOpenAQData loc (Resolved (Data (Results ms))) = Some s"
  shows "((\<forall>m. Measurement m \<in> set ms \<longrightarrow> parameter m \<noteq> ''pm25'') \<longrightarrow> aqi s = Num 75) \<and>
         ((\<exists>m. Measurement m \<in> set ms \<and> parameter m = ''pm25'') \<and>
          (\<forall>m. Measurement m \<in> set ms \<and> parameter m = ''pm25'' \<longrightarrow>
             (\<exists>v. val m = Number v \<and> v \<noteq> 0)) \<longrightarrow>
          (\<exists>m v. Measurement m \<in> set ms \<and> parameter m = ''pm25'' \<and> val m = Number v \<and>
             aqi s = Math_round (Num (clamp (v * 5) 0 500))))"
proof -
  from assms obtain ps where
    ps: "collect_pollutants Map.empty ms = Inr ps" and
    s: "aqi s = Math_round (calculatedAqi ps)"
    by (auto simp: getOpenAQData_def getOpenAQData_try_def
        split: list.splits sum.splits item.splits)
  have "aqi s = Num 75" if "\<forall>m. Measurement m \<in> set ms \<longrightarrow> parameter m \<noteq> ''pm25''"
    using collect_pollutants_without_pm25 [OF ps that] s
    by (simp add: calculatedAqi_cases)
  moreover have "\<exists>m v. Measurement m \<in> set ms \<and> parameter m = ''pm25'' \<and> val m = Number v \<and>
             aqi s = Math_round (Num (clamp (v * 5) 0 500))"
    if some: "\<exists>m. Measurement m \<in> set ms \<and> parameter m = ''pm25''"
      and nonzero: "\<forall>m. Measurement m \<in> set ms \<and> parameter m = ''pm25'' \<longrightarrow>
             (\<exists>v. val m = Number v \<and> v \<noteq> 0)"
  proof -
    from some obtain m where "Measurement m \<in> set ms" "parameter m = ''pm25''"
      by blast
    from collect_pollutants_with_pm25 [OF ps this]
    obtain m' p where m': "Measurement m' \<in> set ms" "parameter m' = ''pm25''"
      and p: "ps ''pm25'' = Some p" "val p = val m'"
      by auto
    from m' nonzero obtain v where v: "val m' = Number v" "v \<noteq> 0"
      by blast
    with p s have "aqi s = Math_round (Num (clamp (v * 5) 0 500))"
      by (simp add: calculatedAqi_cases)
    with m' v show ?thesis
      by blast
  qed
  ultimately show ?thesis
    by blast
qed

text \<open>
  C3. The claim: for a non-empty result the synthetic index is
  \<open>clamp(pm25_value * 5, 0, 500)\<close> whenever a pm25 reading is present, and 75 otherwise.
  \<open>adapter_index\<close> above proves it when no pm25 reading is present and when every pm25
  reading is a number other than 0. A pm25 reading of 0 is falsy for \<open>||\<close> and is replaced by the surrogate
  15: the adapter reports the index 75 and the category moderate for the single
  measurement pm25 = 0, where the claim gives \<open>clamp(0 * 5, 0, 500) = 0\<close>.
\<close>

theorem zero_pm25_reading_gets_surrogate:
  "map_option aqi (getOpenAQData ''Delhi, India''
     (Resolved (Data (Results [Measurement
        \<lparr>val = Number 0, unit = Text ug_m3, parameter = ''pm25'',
         datetime = Text ''2024-05-01T00:00:00Z''\<rparr>])))) = Some (Num 75) \<and>
   map_option category (getOpenAQData ''Delhi, India''
     (Resolved (Data (Results [Measurement
        \<lparr>val = Number 0, unit = Text ug_m3, parameter = ''pm25'',
         datetime = Text ''2024-05-01T00:00:00Z''\<rparr>])))) = Some ''moderate'' \<and>
   clamp (0 * 5) 0 500 = 0"
  by (simp add: getOpenAQData_def getOpenAQData_try_def set_property_def calculatedAqi_def
      pm25_or_default_def clamp_def getAQICategory.simps)

subsection \<open>The resolver\<close>

text \<open>The two paths of \<open>getAirQualityData\<close>, the forecast left folded.\<close>

lemma getAirQualityData_provider:
  assumes "getOpenAQData loc outcome = Some s"
  shows "getAirQualityData loc outcome now g =
     Inr (\<lparr>aqi = aqi s, category = category s, location = location s,
           pollutants = pollutants s, lastUpdated = lastUpdated s,
           forecast = fst (generateForecast (aqi s) loc g),
           healthRecommendations = generateHealthRecommendations (aqi s)\<rparr>,
          snd (generateForecast (aqi s) loc g))"
  using assms by (simp add: getAirQualityData_def case_prod_unfold)

lemma getAirQualityData_fallback:
  assumes "getOpenAQData loc outcome = None"
    and "fallback_aqi (js_or_property (get_property cityData loc)
            (get_property cityData ''New York, NY'')) = Inr base"
    and "fallback_pollutants (js_or_property (get_property cityData loc)
            (get_property cityData ''New York, NY'')) = Inr ps"
    and "cur = Math_max (Num 0) (js_add base (Num ((g 0 - 0.5) * 10)))"
  shows "getAirQualityData loc outcome now g =
     Inr (\<lparr>aqi = Math_round cur, category = getAQICategory cur, location = loc,
           pollutants = ps, lastUpdated = Text now,
           forecast = fst (generateForecast cur loc (\<lambda>n. g (Suc n))),
           healthRecommendations = generateHealthRecommendations cur\<rparr>,
          snd (generateForecast cur loc (\<lambda>n. g (Suc n))))"
  using assms
  by (simp add: getAirQualityData_def Math_random_def case_prod_unfold Let_def)

text \<open>
  The fallback is never \<open>undefined\<close>, so both reads from it succeed; for a location that
  names no member of \<open>Object.prototype\<close> they give a number that is not negative and a
  pollutant map.
\<close>

lemma fallback_reads:
  "\<exists>base ps.
     fallback_aqi (js_or_property (get_property cityData loc)
        (get_property cityData ''New York, NY'')) = Inr base \<and>
     fallback_pollutants (js_or_property (get_property cityData loc)
        (get_property cityData ''New York, NY'')) = Inr ps \<and>
     (loc \<notin> set object_prototype_keys \<longrightarrow> (\<exists>a. base = Num a \<and> 0 \<le> a) \<and> ps \<noteq> None)"
proof (cases "get_property cityData loc")
  case (Own e)
  then have "(loc, e) \<in> set cityData"
    by (auto simp: get_property_def split: option.splits if_splits dest: map_of_SomeD)
  then have "0 \<le> city_aqi e"
    by (auto simp: cityData_def)
  with Own show ?thesis by simp
next
  case Inherited
  then have "loc \<in> set object_prototype_keys"
    by (auto simp: get_property_def split: option.splits if_splits)
  with Inherited show ?thesis by simp
next
  case Missing
  then show ?thesis
    by (simp add: get_property_def cityData_def)
qed











text \<open>
  The adapter on a pm25 element whose value is the string \<open>abc\<close>: the string is truthy
  and converts to \<open>NaN\<close>, which \<open>Math.max\<close>, \<open>Math.min\<close> and \<open>Math.round\<close> hand through.
\<close>

lemma non_numeric_value_result:
  "map_option aqi (getOpenAQData ''Delhi, India''
     (Resolved (Data (Results [Measurement
        \<lparr>val = Str ''abc'' NaN, unit = Absent, parameter = ''pm25'', datetime = Absent\<rparr>])))) =
     Some NaN \<and>
   map_option category (getOpenAQData ''Delhi, India''
     (Resolved (Data (Results [Measurement
        \<lparr>val = Str ''abc'' NaN, unit = Absent, parameter = ''pm25'', datetime = Absent\<rparr>])))) =
     Some ''hazardous''"
  by (simp add: getOpenAQData_def getOpenAQData_try_def set_property_def calculatedAqi_def
      pm25_or_default_def getAQICategory.simps)




lemma constant_draws_apply: "constant_draws r n = r"
  by (simp add: constant_draws_def)

lemma forecast_first:
  "hd (fst (generateForecast (Num seed) loc g)) =
     spec_day ''Today'' (clamp (seed * 1.05 + noise (g 0)) 10 400)"
  by (simp add: generateForecast_Num days_def running.simps Let_def)

lemma London_fallback:
  "getAirQualityData ''London, UK'' Rejected now (constant_draws (3 / 100)) =
     Inr (\<lparr>aqi = Num 50, category = ''moderate'', location = ''London, UK'',
           pollutants = Some [''pm25'' \<mapsto> \<lparr>val = Number 11.2, unit = Text ug_m3, status = ''Good''\<rparr>],
           lastUpdated = Text now,
           forecast = fst (generateForecast (Num 50.3) ''London, UK'' (constant_draws (3 / 100))),
           healthRecommendations = [''Air quality is acceptable for most people'']\<rparr>,
          snd (generateForecast (Num 50.3) ''London, UK'' (constant_draws (3 / 100))))"
proof -
  have draws: "(\<lambda>n. constant_draws (3 / 100) (Suc n)) = constant_draws (3 / 100)"
    by (simp add: constant_draws_def)
  have "getAirQualityData ''London, UK'' Rejected now (constant_draws (3 / 100)) =
     Inr (\<lparr>aqi = Math_round (Num 50.3), category = getAQICategory (Num 50.3),
           location = ''London, UK'',
           pollutants = Some [''pm25'' \<mapsto> \<lparr>val = Number 11.2, unit = Text ug_m3, status = ''Good''\<rparr>],
           lastUpdated = Text now,
           forecast = fst (generateForecast (Num 50.3) ''London, UK''
             (\<lambda>n. constant_draws (3 / 100) (Suc n))),
           healthRecommendations = generateHealthRecommendations (Num 50.3)\<rparr>,
          snd (generateForecast (Num 50.3) ''London, UK''
             (\<lambda>n. constant_draws (3 / 100) (Suc n))))"
    by (rule getAirQualityData_fallback [where base = "Num 55"])
      (simp_all add: getOpenAQData_failures get_property_def cityData_def constant_draws_apply)
  then show ?thesis
    unfolding draws by (simp add: generateHealthRecommendations_def getAQICategory.simps)
qed

text \<open>
  C2, as claimed, fails: the category is the band of the index before rounding. The
  first forecast day from the seed 48 with the draw 0.5 has the running value 50.4: its
  \<open>aqi\<close> is 50 and its category is moderate. The fallback Reading of London with the draw
  0.03 has the index 50.3: its \<open>aqi\<close> is 50 and its category is moderate. The band of 50
  is good.
\<close>

theorem category_of_rounded_counterexample:
  "aqi (hd (fst (generateForecast (Num 48) ''London, UK'' (constant_draws (1 / 2))))) = Num 50 \<and>
   category (hd (fst (generateForecast (Num 48) ''London, UK'' (constant_draws (1 / 2))))) =
     ''moderate'' \<and>
   map_option aqi (reading_of (getAirQualityData ''London, UK'' Rejected
       ''2024-05-01T00:00:00.000Z'' (constant_draws (3 / 100)))) = Some (Num 50) \<and>
   map_option category (reading_of (getAirQualityData ''London, UK'' Rejected
       ''2024-05-01T00:00:00.000Z'' (constant_draws (3 / 100)))) = Some ''moderate'' \<and>
   getAQICategory (Num 50) = ''good''"
  by (simp add: forecast_first London_fallback reading_of_def spec_day_def clamp_def noise_def
      constant_draws_apply getAQICategory.simps)

text \<open>
  C2, amended. In every ForecastDay of \<open>generateForecast\<close>, in every result of the
  provider adapter and in every Reading of the resolver with its forecast, the stored
  category is the band function applied to a number \<open>x\<close> whose \<open>Math.round\<close> is the
  stored \<open>aqi\<close>: the index as it was before rounding.
\<close>

theorem category_of_unrounded:
  "(\<forall>d \<in> set (fst (generateForecast b loc g)).
      \<exists>x. aqi d = Math_round x \<and> category d = getAQICategory x) \<and>
   (\<forall>s. getOpenAQData loc outcome = Some s \<longrightarrow>
      (\<exists>x. aqi s = Math_round x \<and> category s = getAQICategory x)) \<and>
   (\<exists>r g'. getAirQualityData loc outcome now g = Inr (r, g') \<and>
      (\<exists>x. aqi r = Math_round x \<and> category r = getAQICategory x) \<and>
      (\<forall>d \<in> set (forecast r). \<exists>x. aqi d = Math_round x \<and> category d = getAQICategory x))"
proof (intro conjI)
  show "\<forall>d \<in> set (fst (generateForecast b loc g)).
      \<exists>x. aqi d = Math_round x \<and> category d = getAQICategory x"
    using generateForecast_shape [of b loc g] by auto
  show adapter: "\<forall>s. getOpenAQData loc outcome = Some s \<longrightarrow>
      (\<exists>x. aqi s = Math_round x \<and> category s = getAQICategory x)"
    using getOpenAQData_Some by blast
  show "\<exists>r g'. getAirQualityData loc outcome now g = Inr (r, g') \<and>
      (\<exists>x. aqi r = Math_round x \<and> category r = getAQICategory x) \<and>
      (\<forall>d \<in> set (forecast r). \<exists>x. aqi d = Math_round x \<and> category d = getAQICategory x)"
  proof (cases "getOpenAQData loc outcome")
    case None
    obtain base ps where
      reads: "fallback_aqi (js_or_property (get_property cityData loc)
          (get_property cityData ''New York, NY'')) = Inr base"
        "fallback_pollutants (js_or_property (get_property cityData loc)
          (get_property cityData ''New York, NY'')) = Inr ps"
      using fallback_reads [of loc] by blast
    define cur where "cur = Math_max (Num 0) (js_add base (Num ((g 0 - 0.5) * 10)))"
    have "\<forall>d \<in> set (fst (generateForecast cur loc (\<lambda>n. g (Suc n)))).
        \<exists>x. aqi d = Math_round x \<and> category d = getAQICategory x"
      using generateForecast_shape [of cur loc "\<lambda>n. g (Suc n)"] by auto
    then show ?thesis
      unfolding getAirQualityData_fallback [where g = g and now = now, OF None reads cur_def]
      by auto
  next
    case (Some s)
    have "\<forall>d \<in> set (fst (generateForecast (aqi s) loc g)).
        \<exists>x. aqi d = Math_round x \<and> category d = getAQICategory x"
      using generateForecast_shape [of "aqi s" loc g] by auto
    moreover have "\<exists>x. aqi s = Math_round x \<and> category s = getAQICategory x"
      using adapter Some by blast
    ultimately show ?thesis
      unfolding getAirQualityData_provider [OF Some]
      by auto
  qed
qed

theorem category_of_unrounded_witness:
  "hd (fst (generateForecast (Num 48) ''London, UK'' (constant_draws (1 / 2)))) \<in>
     set (fst (generateForecast (Num 48) ''London, UK'' (constant_draws (1 / 2)))) \<and>
   (\<exists>x. aqi (hd (fst (generateForecast (Num 48) ''London, UK'' (constant_draws (1 / 2))))) =
          Math_round x \<and>
        category (hd (fst (generateForecast (Num 48) ''London, UK'' (constant_draws (1 / 2))))) =
          getAQICategory x)"
proof -
  have "length (fst (generateForecast (Num 48) ''London, UK'' (constant_draws (1 / 2)))) = 6"
    using generateForecast_shape [of "Num 48" "''London, UK''" "constant_draws (1 / 2)"]
    by auto
  then have "hd (fst (generateForecast (Num 48) ''London, UK'' (constant_draws (1 / 2)))) \<in>
     set (fst (generateForecast (Num 48) ''London, UK'' (constant_draws (1 / 2))))"
    by (intro hd_in_set) auto
  with category_of_unrounded [of "Num 48" "''London, UK''" "constant_draws (1 / 2)"]
  show ?thesis
    by blast
qed

text \<open>The fallback Readings of \<open>constructor\<close> and of New York when the provider rejects.\<close>

lemma inherited_fallback:
  "getAirQualityData ''constructor'' Rejected now g =
     Inr (\<lparr>aqi = NaN, category = ''hazardous'', location = ''constructor'',
           pollutants = None, lastUpdated = Text now,
           forecast = fst (generateForecast NaN ''constructor'' (\<lambda>n. g (Suc n))),
           healthRecommendations =
             [''Health warnings '' @ em_dash @ '' avoid outdoor activities'']\<rparr>,
          snd (generateForecast NaN ''constructor'' (\<lambda>n. g (Suc n))))"
proof -
  have "getAirQualityData ''constructor'' Rejected now g =
     Inr (\<lparr>aqi = Math_round NaN, category = getAQICategory NaN, location = ''constructor'',
           pollutants = None, lastUpdated = Text now,
           forecast = fst (generateForecast NaN ''constructor'' (\<lambda>n. g (Suc n))),
           healthRecommendations = generateHealthRecommendations NaN\<rparr>,
          snd (generateForecast NaN ''constructor'' (\<lambda>n. g (Suc n))))"
    by (rule getAirQualityData_fallback [where base = NaN])
      (simp_all add: getOpenAQData_failures get_property_def cityData_def
        object_prototype_keys_def)
  then show ?thesis
    by (simp add: generateHealthRecommendations_def getAQICategory.simps)
qed

lemma New_York_fallback:
  "getAirQualityData ''New York, NY'' Rejected now (constant_draws (1 / 2)) =
     Inr (\<lparr>aqi = Num 78, category = ''moderate'', location = ''New York, NY'',
           pollutants = Some [''pm25'' \<mapsto> \<lparr>val = Number 12.3, unit = Text ug_m3, status = ''Good''\<rparr>],
           lastUpdated = Text now,
           forecast = fst (generateForecast (Num 78) ''New York, NY'' (constant_draws (1 / 2))),
           healthRecommendations = [''Air quality is acceptable for most people'']\<rparr>,
          snd (generateForecast (Num 78) ''New York, NY'' (constant_draws (1 / 2))))"
proof -
  have draws: "(\<lambda>n. constant_draws (1 / 2) (Suc n)) = constant_draws (1 / 2)"
    by (simp add: constant_draws_def)
  have "getAirQualityData ''New York, NY'' Rejected now (constant_draws (1 / 2)) =
     Inr (\<lparr>aqi = Math_round (Num 78), category = getAQICategory (Num 78),
           location = ''New York, NY'',
           pollutants = Some [''pm25'' \<mapsto> \<lparr>val = Number 12.3, unit = Text ug_m3, status = ''Good''\<rparr>],
           lastUpdated = Text now,
           forecast = fst (generateForecast (Num 78) ''New York, NY''
             (\<lambda>n. constant_draws (1 / 2) (Suc n))),
           healthRecommendations = generateHealthRecommendations (Num 78)\<rparr>,
          snd (generateForecast (Num 78) ''New York, NY''
             (\<lambda>n. constant_draws (1 / 2) (Suc n))))"
    by (rule getAirQualityData_fallback [where base = "Num 78"])
      (simp_all add: getOpenAQData_failures get_property_def cityData_def constant_draws_apply)
  then show ?thesis
    unfolding draws by (simp add: generateHealthRecommendations_def getAQICategory.simps)
qed

text \<open>
  C7. The claim: every location that is not a key of the store resolves to the entry of
  New York. \<open>cityData[location]\<close> also finds the members that the store inherits from
  \<open>Object.prototype\<close>, and they are truthy. The location \<open>constructor\<close> is no key of the
  store, yet its Reading has the index \<open>NaN\<close>, the category hazardous and no pollutants,
  where the Reading of New York has (with the draw 0.5, a perturbation of 0) the index
  78, the category moderate and the pollutants of the entry.
\<close>

theorem inherited_key_is_not_default:
  "''constructor'' \<notin> set (map fst cityData) \<and>
   map_option aqi (reading_of (getAirQualityData ''constructor'' Rejected
      ''2024-05-01T00:00:00.000Z'' (constant_draws (1 / 2)))) = Some NaN \<and>
   map_option category (reading_of (getAirQualityData ''constructor'' Rejected
      ''2024-05-01T00:00:00.000Z'' (constant_draws (1 / 2)))) = Some ''hazardous'' \<and>
   map_option pollutants (reading_of (getAirQualityData ''constructor'' Rejected
      ''2024-05-01T00:00:00.000Z'' (constant_draws (1 / 2)))) = Some None \<and>
   map_option aqi (reading_of (getAirQualityData ''New York, NY'' Rejected
      ''2024-05-01T00:00:00.000Z'' (constant_draws (1 / 2)))) = Some (Num 78) \<and>
   map_option category (reading_of (getAirQualityData ''New York, NY'' Rejected
      ''2024-05-01T00:00:00.000Z'' (constant_draws (1 / 2)))) = Some ''moderate'' \<and>
   map_option pollutants (reading_of (getAirQualityData ''New York, NY'' Rejected
      ''2024-05-01T00:00:00.000Z'' (constant_draws (1 / 2)))) \<noteq> Some None"
  by (simp add: inherited_fallback New_York_fallback reading_of_def cityData_def)

text \<open>
  For a location that is neither a key of the store nor a member of \<open>Object.prototype\<close>
  the claim holds: the result is the result for New York with the location replaced, and
  it is the entry of New York with a perturbation in \<open>[-5, 5)\<close> on the index 78.
\<close>

lemma unknown_location_default:
  assumes "loc \<notin> set (map fst cityData)" and "loc \<notin> set object_prototype_keys"
    and "getOpenAQData loc outcome = None"
    and "getOpenAQData ''New York, NY'' outcome' = None"
  shows "getAirQualityData loc outcome now g =
     map_sum id (\<lambda>p. (fst p\<lparr>location := loc\<rparr>, snd p))
       (getAirQualityData ''New York, NY'' outcome' now g)"
proof -
  from assms(1) have "map_of cityData loc = None"
    by (simp add: map_of_eq_None_iff)
  with assms(2) have "get_property cityData loc = Missing"
    by (simp add: get_property_def)
  with assms(3,4) show ?thesis
    by (simp add: getAirQualityData_def generateForecast_def Math_random_def Let_def
        get_property_def cityData_def case_prod_unfold)
qed

lemma default_perturbation:
  assumes "loc \<notin> set (map fst cityData)" and "loc \<notin> set object_prototype_keys"
    and "getOpenAQData loc outcome = None" and "unit_draws g"
  shows "\<exists>r g' v. getAirQualityData loc outcome now g = Inr (r, g') \<and>
           - 5 \<le> v \<and> v < 5 \<and> aqi r = Math_round (Num (78 + v)) \<and>
           category r = getAQICategory (Num (78 + v)) \<and>
           pollutants r = Some [''pm25'' \<mapsto> \<lparr>val = Number 12.3, unit = Text ug_m3, status = ''Good''\<rparr>]"
proof -
  from assms(1) have "map_of cityData loc = None"
    by (simp add: map_of_eq_None_iff)
  with assms(2) have missing: "get_property cityData loc = Missing"
    by (simp add: get_property_def)
  from assms(4) have "0 \<le> g 0" "g 0 < 1"
    by (simp_all add: unit_draws_def)
  then have v: "- 5 \<le> (g 0 - 0.5) * 10" "(g 0 - 0.5) * 10 < 5"
    by simp_all
  then have "Math_max (Num 0) (js_add (Num 78) (Num ((g 0 - 0.5) * 10))) =
      Num (78 + (g 0 - 0.5) * 10)"
    by simp
  then have "getAirQualityData loc outcome now g =
     Inr (\<lparr>aqi = Math_round (Num (78 + (g 0 - 0.5) * 10)),
           category = getAQICategory (Num (78 + (g 0 - 0.5) * 10)), location = loc,
           pollutants = Some [''pm25'' \<mapsto> \<lparr>val = Number 12.3, unit = Text ug_m3, status = ''Good''\<rparr>],
           lastUpdated = Text now,
           forecast = fst (generateForecast (Num (78 + (g 0 - 0.5) * 10)) loc (\<lambda>n. g (Suc n))),
           healthRecommendations = generateHealthRecommendations (Num (78 + (g 0 - 0.5) * 10))\<rparr>,
          snd (generateForecast (Num (78 + (g 0 - 0.5) * 10)) loc (\<lambda>n. g (Suc n))))"
    using missing
    by (intro getAirQualityData_fallback [where base = "Num 78"] assms(3))
      (simp_all add: get_property_def cityData_def)
  with v show ?thesis
    by (intro exI [of _ "(g 0 - 0.5) * 10"] exI) auto
qed

end
